theory Spec2Isabelle
  imports Main "HOL-Library.Sublist"
begin

section \<open>The kaniko-ecr plugin (cmd/kaniko-ecr/main.go)\<close>

text \<open>
  A shallow embedding of the decision layer of \<^verbatim>\<open>cmd/kaniko-ecr/main.go\<close>: the
  registry classifier, the credential provisioner \<^verbatim>\<open>setupECRAuth\<close>, the repository
  provisioner \<^verbatim>\<open>createRepository\<close>, the two policy uploaders and \<^verbatim>\<open>run\<close>.
  Go strings are byte sequences, modelled as \<open>string\<close>. Every function that touches the
  process environment, the file system or the registry API takes the world and returns
  it updated; each call that leaves the program is appended to the world's trace.
\<close>

subsection \<open>Constants (main.go, lines 23-30)\<close>

definition accessKeyEnv :: string where
  "accessKeyEnv = ''AWS_ACCESS_KEY_ID''"

definition secretKeyEnv :: string where
  "secretKeyEnv = ''AWS_SECRET_ACCESS_KEY''"

definition dockerConfigPath :: string where
  "dockerConfigPath = ''/kaniko/.docker/config.json''"

definition ecrPublicDomain :: string where
  "ecrPublicDomain = ''public.ecr.aws''"

definition defaultDigestFile :: string where
  "defaultDigestFile = ''/kaniko/digest-file''"

subsection \<open>Go errors\<close>

text \<open>
  An \<^verbatim>\<open>error\<close> value of the program: a leaf that carries only a message
  (\<^verbatim>\<open>fmt.Errorf\<close>, a system-call or transport error), an error wrapped with a message
  (\<^verbatim>\<open>errors.Wrap\<close>, or the SDK's own operation wrappers), or a leaf that implements
  \<^verbatim>\<open>smithy.APIError\<close> and so carries an error code. A \<^verbatim>\<open>nil\<close> error is \<open>None\<close>.
\<close>

datatype go_error =
    Errorf string
  | Wrap go_error string
  | APIError string

text \<open>
  \<^verbatim>\<open>errors.As(err, &apiError)\<close> followed by \<^verbatim>\<open>apiError.ErrorCode()\<close>: the chain of
  wrapped errors is walked from the outside, and the first error that implements
  \<^verbatim>\<open>smithy.APIError\<close> is taken. The result is its code, \<open>None\<close> when \<^verbatim>\<open>errors.As\<close>
  returns false (also on a \<^verbatim>\<open>nil\<close> error).
\<close>

fun unwrap_APIError :: "go_error \<Rightarrow> string option" where
  "unwrap_APIError (Errorf msg) = None"
| "unwrap_APIError (Wrap err msg) = unwrap_APIError err"
| "unwrap_APIError (APIError code) = Some code"

definition errors_As :: "go_error option \<Rightarrow> string option" where
  "errors_As err = (case err of None \<Rightarrow> None | Some e \<Rightarrow> unwrap_APIError e)"

text \<open>\<^verbatim>\<open>errors.Wrap(err, msg)\<close> of package \<^verbatim>\<open>pkg/errors\<close>: \<^verbatim>\<open>nil\<close> stays \<^verbatim>\<open>nil\<close>.\<close>

definition errors_Wrap :: "go_error option \<Rightarrow> string \<Rightarrow> go_error option" where
  "errors_Wrap err msg = (case err of None \<Rightarrow> None | Some e \<Rightarrow> Some (Wrap e msg))"

subsection \<open>The builder's input (the struct literal of run, lines 208-232)\<close>

text \<open>
  Modelled from the spec: the types \<^verbatim>\<open>kaniko.Plugin\<close>, \<^verbatim>\<open>kaniko.Build\<close> and
  \<^verbatim>\<open>kaniko.Artifact\<close> and the constant \<^verbatim>\<open>artifact.ECR\<close> are declared in packages
  that are not among the sources. The records have the fields of the spec's Build
  Invocation, under the names that the struct literal of \<^verbatim>\<open>run\<close> gives them.
\<close>

datatype registry_type = ECR

record kaniko_Build =
  Dockerfile :: string
  Context :: string
  Tags :: "string list"
  Args :: "string list"
  Target :: string
  Repo :: string
  Labels :: "string list"
  SnapshotMode :: string
  EnableCache :: bool
  CacheRepo :: string
  CacheTTL :: int
  DigestFile :: string
  NoPush :: bool
  Verbosity :: string

record kaniko_Artifact =
  ArtifactTags :: "string list"
  ArtifactRepo :: string
  Registry :: string
  ArtifactFile :: string
  RegistryType :: registry_type

record kaniko_Plugin =
  Build :: kaniko_Build
  Artifact :: kaniko_Artifact

subsection \<open>The parsed command line (the flags of main, lines 49-160)\<close>

text \<open>
  One field for each flag that \<^verbatim>\<open>run\<close> reads from the \<^verbatim>\<open>cli.Context\<close>. The two
  policy flags are read through \<^verbatim>\<open>c.IsSet\<close> first: \<open>None\<close> is a flag that was not set.
\<close>

record config =
  dockerfile :: string
  build_context :: string
  tags :: "string list"
  args :: "string list"
  target :: string
  repo :: string
  create_repository :: bool
  region :: string
  custom_labels :: "string list"
  registry :: string
  access_key :: string
  secret_key :: string
  snapshot_mode :: string
  lifecycle_policy :: "string option"
  repository_policy :: "string option"
  enable_cache :: bool
  cache_repo :: string
  cache_ttl :: int
  artifact_file :: string
  no_push :: bool
  verbosity :: string

subsection \<open>The world outside the program\<close>

text \<open>
  The registry control plane has two API surfaces, the private one (package
  \<^verbatim>\<open>ecr\<close>) and the public one (package \<^verbatim>\<open>ecrpublic\<close>), and the program uses three
  operations of them.
\<close>

datatype surface = Private | Public

datatype api_op =
    CreateRepository string
  | PutLifecyclePolicy string string
  | SetRepositoryPolicy string string

text \<open>Every call that leaves the program, in the order the calls are made.\<close>

datatype event =
    Setenv string string
  | WriteFile string string nat
  | ReadFile string
  | LoadDefaultConfig string
  | ApiCall surface api_op
  | PluginExec kaniko_Plugin

text \<open>
  The state the program can change (the environment variables, the files, the trace of
  calls), and what the outside answers: for each external call, the error it returns, or
  \<open>None\<close> when it succeeds.
\<close>

record world =
  env :: "string \<rightharpoonup> string"
  files :: "string \<rightharpoonup> string"
  trace :: "event list"
  setenv_err :: "string \<Rightarrow> string \<Rightarrow> go_error option"
  write_err :: "string \<Rightarrow> go_error option"
  read_err :: "string \<Rightarrow> go_error option"
  config_err :: "string \<Rightarrow> go_error option"
  api_err :: "surface \<Rightarrow> api_op \<Rightarrow> go_error option"
  exec_err :: "kaniko_Plugin \<Rightarrow> go_error option"

definition emit :: "event \<Rightarrow> world \<Rightarrow> world" where
  "emit e w = w\<lparr>trace := trace w @ [e]\<rparr>"

text \<open>The calls made between two worlds, the second one reached from the first.\<close>

definition emitted :: "world \<Rightarrow> world \<Rightarrow> event list" where
  "emitted w w' = drop (length (trace w)) (trace w')"

text \<open>\<^verbatim>\<open>os.Setenv(key, value)\<close>: the variable is set unless the call fails.\<close>

definition os_Setenv :: "string \<Rightarrow> string \<Rightarrow> world \<Rightarrow> go_error option \<times> world" where
  "os_Setenv key val w =
     (case setenv_err w key val of
        Some err \<Rightarrow> (Some err, emit (Setenv key val) w)
      | None \<Rightarrow> (None, emit (Setenv key val) (w\<lparr>env := (env w)(key \<mapsto> val)\<rparr>)))"

text \<open>
  \<^verbatim>\<open>ioutil.WriteFile(path, data, perm)\<close>: the file is created or truncated and holds
  exactly \<open>data\<close> afterwards. A failing write is taken to fail before the file changes.
\<close>

definition ioutil_WriteFile :: "string \<Rightarrow> string \<Rightarrow> nat \<Rightarrow> world \<Rightarrow> go_error option \<times> world" where
  "ioutil_WriteFile path data perm w =
     (case write_err w path of
        Some err \<Rightarrow> (Some err, emit (WriteFile path data perm) w)
      | None \<Rightarrow> (None, emit (WriteFile path data perm) (w\<lparr>files := (files w)(path \<mapsto> data)\<rparr>)))"

text \<open>\<^verbatim>\<open>ioutil.ReadFile(path)\<close>: the bytes of the file, or an error.\<close>

definition ioutil_ReadFile :: "string \<Rightarrow> world \<Rightarrow> (go_error + string) \<times> world" where
  "ioutil_ReadFile path w =
     (case read_err w path of
        Some err \<Rightarrow> (Inl err, emit (ReadFile path) w)
      | None \<Rightarrow>
          (case files w path of
             None \<Rightarrow> (Inl (Errorf (''open '' @ path @ '': no such file or directory'')),
                      emit (ReadFile path) w)
           | Some contents \<Rightarrow> (Inr contents, emit (ReadFile path) w)))"

text \<open>
  \<^verbatim>\<open>config.LoadDefaultConfig(context.TODO(), config.WithRegion(region))\<close>: only the
  error is modelled, the loaded configuration is passed to the API clients unread.
\<close>

definition config_LoadDefaultConfig :: "string \<Rightarrow> world \<Rightarrow> go_error option \<times> world" where
  "config_LoadDefaultConfig rgn w = (config_err w rgn, emit (LoadDefaultConfig rgn) w)"

text \<open>A call of one operation on the client of one surface.\<close>

definition api_call :: "surface \<Rightarrow> api_op \<Rightarrow> world \<Rightarrow> go_error option \<times> world" where
  "api_call s op w = (api_err w s op, emit (ApiCall s op) w)"

text \<open>\<^verbatim>\<open>plugin.Exec()\<close>, the external build-and-push routine.\<close>

definition plugin_Exec :: "kaniko_Plugin \<Rightarrow> world \<Rightarrow> go_error option \<times> world" where
  "plugin_Exec p w = (exec_err w p, emit (PluginExec p) w)"

subsection \<open>isRegistryPublic (lines 342-344)\<close>

text \<open>
  \<^verbatim>\<open>strings.HasPrefix(s, prefix)\<close> is
  \<^verbatim>\<open>len(s) >= len(prefix) && s[0:len(prefix)] == prefix\<close>.
\<close>

definition strings_HasPrefix :: "string \<Rightarrow> string \<Rightarrow> bool" where
  "strings_HasPrefix s pre = (length s \<ge> length pre \<and> take (length pre) s = pre)"

definition isRegistryPublic :: "string \<Rightarrow> bool" where
  "isRegistryPublic rg = strings_HasPrefix rg ecrPublicDomain"

subsection \<open>setupECRAuth (lines 236-260)\<close>

text \<open>
  The credential descriptor of line 254: the format string with its two \<^verbatim>\<open>%s\<close>
  replaced by the public domain and the registry, both verbatim.
\<close>

definition dockerConfigJSON :: "string \<Rightarrow> string" where
  "dockerConfigJSON rg =
     ''{\"credStore\": \"ecr-login\", \"credHelpers\": {\"'' @ ecrPublicDomain
       @ ''\": \"ecr-login\", \"'' @ rg @ ''\": \"ecr-login\"}}''"

text \<open>The permission bits \<^verbatim>\<open>0644\<close> (octal).\<close>

definition perm_0644 :: nat where
  "perm_0644 = 6 * 64 + 4 * 8 + 4"

definition setupECRAuth :: "string \<Rightarrow> string \<Rightarrow> string \<Rightarrow> world \<Rightarrow> go_error option \<times> world" where
  "setupECRAuth accessKey secretKey rg w =
     (if rg = [] then (Some (Errorf ''registry must be specified''), w)
      else
        let (envErr, w1) =
          (if accessKey \<noteq> [] \<and> secretKey \<noteq> [] then
             (case os_Setenv accessKeyEnv accessKey w of
                (Some err, w') \<Rightarrow>
                  (Some (Wrap err (''failed to set '' @ accessKeyEnv @ '' environment variable'')), w')
              | (None, w') \<Rightarrow>
                  (case os_Setenv secretKeyEnv secretKey w' of
                     (Some err, w'') \<Rightarrow>
                       (Some (Wrap err (''failed to set '' @ secretKeyEnv @ '' environment variable'')), w'')
                   | (None, w'') \<Rightarrow> (None, w'')))
           else (None, w))
        in (case envErr of
              Some err \<Rightarrow> (Some err, w1)
            | None \<Rightarrow>
                (case ioutil_WriteFile dockerConfigPath (dockerConfigJSON rg) perm_0644 w1 of
                   (Some err, w2) \<Rightarrow> (Some (Wrap err ''failed to create docker config file''), w2)
                 | (None, w2) \<Rightarrow> (None, w2))))"

subsection \<open>createRepository (lines 262-295)\<close>

definition createRepository :: "string \<Rightarrow> string \<Rightarrow> string \<Rightarrow> world \<Rightarrow> go_error option \<times> world" where
  "createRepository rgn rp rg w =
     (if rg = [] then (Some (Errorf ''registry must be specified''), w)
      else if rp = [] then (Some (Errorf ''repo must be specified''), w)
      else
        (case config_LoadDefaultConfig rgn w of
           (Some err, w1) \<Rightarrow> (Some (Wrap err ''failed to load aws config''), w1)
         | (None, w1) \<Rightarrow>
             let (createErr, w2) =
               (if isRegistryPublic rg then api_call Public (CreateRepository rp) w1
                else api_call Private (CreateRepository rp) w1)
             in if (case errors_As createErr of
                      None \<Rightarrow> False
                    | Some code \<Rightarrow> code \<noteq> ''RepositoryAlreadyExistsException'')
                then (errors_Wrap createErr ''failed to create repository'', w2)
                else (None, w2)))"

subsection \<open>uploadLifeCyclePolicy (lines 297-312)\<close>

text \<open>
  The operation \<open>PutLifecyclePolicy name text\<close> stands for the input with
  \<^verbatim>\<open>RepositoryName\<close> \<open>name\<close> and \<^verbatim>\<open>LifecyclePolicyText\<close> \<open>text\<close>; the client is
  always the one of package \<^verbatim>\<open>ecr\<close>.
\<close>

definition uploadLifeCyclePolicy :: "string \<Rightarrow> string \<Rightarrow> string \<Rightarrow> world \<Rightarrow> go_error option \<times> world" where
  "uploadLifeCyclePolicy rgn rp lifecyclePolicy w =
     (case config_LoadDefaultConfig rgn w of
        (Some err, w1) \<Rightarrow> (Some (Wrap err ''failed to load aws config''), w1)
      | (None, w1) \<Rightarrow> api_call Private (PutLifecyclePolicy rp lifecyclePolicy) w1)"

subsection \<open>uploadRepositoryPolicy (lines 314-340)\<close>

text \<open>
  The operation \<open>SetRepositoryPolicy name text\<close> stands for the input with
  \<^verbatim>\<open>RepositoryName\<close> \<open>name\<close> and \<^verbatim>\<open>PolicyText\<close> \<open>text\<close>.
\<close>

definition uploadRepositoryPolicy :: "string \<Rightarrow> string \<Rightarrow> string \<Rightarrow> string \<Rightarrow> world \<Rightarrow> go_error option \<times> world" where
  "uploadRepositoryPolicy rgn rp rg repositoryPolicy w =
     (case config_LoadDefaultConfig rgn w of
        (Some err, w1) \<Rightarrow> (Some (Wrap err ''failed to load aws config''), w1)
      | (None, w1) \<Rightarrow>
          if isRegistryPublic rg then api_call Public (SetRepositoryPolicy rp repositoryPolicy) w1
          else api_call Private (SetRepositoryPolicy rp repositoryPolicy) w1)"

subsection \<open>run (lines 167-234)\<close>

text \<open>
  \<^verbatim>\<open>run\<close> either returns (an error or \<^verbatim>\<open>nil\<close>) or ends the process in
  \<^verbatim>\<open>logrus.Fatal\<close>, whose argument is an error or a formatted message about one.
\<close>

datatype fatal = Fatal go_error | FatalSprintf string go_error

datatype outcome = Returned "go_error option" | Exited fatal

text \<open>Lines 174-179: only set up auth when pushing or credentials are defined.\<close>

definition run_auth :: "config \<Rightarrow> world \<Rightarrow> go_error option \<times> world" where
  "run_auth c w =
     (if \<not> no_push c \<or> access_key c \<noteq> []
      then setupECRAuth (access_key c) (secret_key c) (registry c) w
      else (None, w))"

text \<open>Lines 181-186: only create the repository when pushing and create-repository is true.\<close>

definition run_create :: "config \<Rightarrow> world \<Rightarrow> go_error option \<times> world" where
  "run_create c w =
     (if \<not> no_push c \<and> create_repository c
      then createRepository (region c) (repo c) (registry c) w
      else (None, w))"

text \<open>Lines 188-196: the lifecycle policy; \<open>Some\<close> is the argument of \<^verbatim>\<open>logrus.Fatal\<close>.\<close>

definition run_lifecycle :: "config \<Rightarrow> world \<Rightarrow> fatal option \<times> world" where
  "run_lifecycle c w =
     (case lifecycle_policy c of
        None \<Rightarrow> (None, w)
      | Some path \<Rightarrow>
          (case ioutil_ReadFile path w of
             (Inl err, w1) \<Rightarrow> (Some (Fatal err), w1)
           | (Inr contents, w1) \<Rightarrow>
               (case uploadLifeCyclePolicy (region c) (repo c) contents w1 of
                  (Some err, w2) \<Rightarrow>
                    (Some (FatalSprintf ''error uploading ECR lifecycle policy: %v'' err), w2)
                | (None, w2) \<Rightarrow> (None, w2))))"

text \<open>Lines 198-206: the repository policy (the message is the one of the source).\<close>

definition run_repository_policy :: "config \<Rightarrow> world \<Rightarrow> fatal option \<times> world" where
  "run_repository_policy c w =
     (case repository_policy c of
        None \<Rightarrow> (None, w)
      | Some path \<Rightarrow>
          (case ioutil_ReadFile path w of
             (Inl err, w1) \<Rightarrow> (Some (Fatal err), w1)
           | (Inr contents, w1) \<Rightarrow>
               (case uploadRepositoryPolicy (region c) (repo c) (registry c) contents w1 of
                  (Some err, w2) \<Rightarrow>
                    (Some (FatalSprintf ''error uploading ECR lifecycle policy: %v'' err), w2)
                | (None, w2) \<Rightarrow> (None, w2))))"

text \<open>
  Lines 208-232: the builder's input; \<^verbatim>\<open>fmt.Sprintf("%s/%s", a, b)\<close> is \<open>a\<close>, a slash
  and \<open>b\<close>.
\<close>

definition plugin_of :: "config \<Rightarrow> kaniko_Plugin" where
  "plugin_of c =
     \<lparr> Build =
         \<lparr> Dockerfile = dockerfile c,
           Context = build_context c,
           Tags = tags c,
           Args = args c,
           Target = target c,
           Repo = registry c @ ''/'' @ repo c,
           Labels = custom_labels c,
           SnapshotMode = snapshot_mode c,
           EnableCache = enable_cache c,
           CacheRepo = registry c @ ''/'' @ cache_repo c,
           CacheTTL = cache_ttl c,
           DigestFile = defaultDigestFile,
           NoPush = no_push c,
           Verbosity = verbosity c \<rparr>,
       Artifact =
         \<lparr> ArtifactTags = tags c,
           ArtifactRepo = repo c,
           Registry = registry c,
           ArtifactFile = artifact_file c,
           RegistryType = ECR \<rparr> \<rparr>"

definition run :: "config \<Rightarrow> world \<Rightarrow> outcome \<times> world" where
  "run c w =
     (case run_auth c w of
        (Some err, w1) \<Rightarrow> (Returned (Some err), w1)
      | (None, w1) \<Rightarrow>
          (case run_create c w1 of
             (Some err, w2) \<Rightarrow> (Returned (Some err), w2)
           | (None, w2) \<Rightarrow>
               (case run_lifecycle c w2 of
                  (Some f, w3) \<Rightarrow> (Exited f, w3)
                | (None, w3) \<Rightarrow>
                    (case run_repository_policy c w3 of
                       (Some f, w4) \<Rightarrow> (Exited f, w4)
                     | (None, w4) \<Rightarrow>
                         (case plugin_Exec (plugin_of c) w4 of
                            (err, w5) \<Rightarrow> (Returned err, w5))))))"

subsection \<open>The calls a run can make\<close>

text \<open>
  For a configuration, the external calls that \<^verbatim>\<open>run\<close> can make: one equation for
  each kind of call. The lemma \<open>run_may_call\<close> below shows that the trace of a run
  holds no other call.
\<close>

fun may_call :: "config \<Rightarrow> event \<Rightarrow> bool" where
  "may_call c (Setenv k v) =
     (registry c \<noteq> [] \<and> access_key c \<noteq> [] \<and> secret_key c \<noteq> []
      \<and> ((k = accessKeyEnv \<and> v = access_key c) \<or> (k = secretKeyEnv \<and> v = secret_key c)))"
| "may_call c (WriteFile p d m) =
     ((\<not> no_push c \<or> access_key c \<noteq> []) \<and> registry c \<noteq> []
      \<and> p = dockerConfigPath \<and> d = dockerConfigJSON (registry c) \<and> m = perm_0644)"
| "may_call c (ReadFile p) = (lifecycle_policy c = Some p \<or> repository_policy c = Some p)"
| "may_call c (LoadDefaultConfig r) = (r = region c)"
| "may_call c (ApiCall s (CreateRepository n)) =
     (\<not> no_push c \<and> create_repository c \<and> n = repo c
      \<and> s = (if isRegistryPublic (registry c) then Public else Private))"
| "may_call c (ApiCall s (PutLifecyclePolicy n t)) =
     (lifecycle_policy c \<noteq> None \<and> n = repo c \<and> s = Private)"
| "may_call c (ApiCall s (SetRepositoryPolicy n t)) =
     (repository_policy c \<noteq> None \<and> n = repo c
      \<and> s = (if isRegistryPublic (registry c) then Public else Private))"
| "may_call c (PluginExec p) = (p = plugin_of c)"

text \<open>
  The policy texts a run may upload when the files are \<open>fs\<close>: the text of an upload is
  what \<open>fs\<close> holds at the path of the policy flag. Any other call passes.
\<close>

fun uploads_from :: "(string \<rightharpoonup> string) \<Rightarrow> config \<Rightarrow> event \<Rightarrow> bool" where
  "uploads_from fs c (ApiCall s (PutLifecyclePolicy n t)) =
     (case lifecycle_policy c of None \<Rightarrow> False | Some p \<Rightarrow> fs p = Some t)"
| "uploads_from fs c (ApiCall s (SetRepositoryPolicy n t)) =
     (case repository_policy c of None \<Rightarrow> False | Some p \<Rightarrow> fs p = Some t)"
| "uploads_from fs c e = True"

subsection \<open>The credential descriptor read as JSON\<close>

text \<open>
  The spec's descriptor is a JSON object that names a credential helper for hosts: the
  members of its \<^verbatim>\<open>credHelpers\<close> object, each a host with the name of its helper. To
  say which hosts a written text names, the text is read as JSON, with no regard to how
  it was produced: strings end at the first unescaped double quote, a backslash escapes
  the next character, a control character cannot stand in a string, and white space
  between tokens does not count.
\<close>

definition json_ws :: "char \<Rightarrow> bool" where
  "json_ws c = (c = CHR '' '' \<or> c = CHR 0x09 \<or> c = CHR 0x0A \<or> c = CHR 0x0D)"

text \<open>A character that stands for itself inside a JSON string.\<close>

definition json_plain :: "char \<Rightarrow> bool" where
  "json_plain c = (c \<noteq> CHR 0x22 \<and> c \<noteq> CHR 0x5C \<and> (32::nat) \<le> of_char c)"

text \<open>
  The character after a backslash and what the pair stands for. The escape
  \<^verbatim>\<open>\u\<close> with four hexadecimal digits is not read: a text that has one is refused.
\<close>

definition json_escape :: "char \<Rightarrow> char option" where
  "json_escape c =
     (if c = CHR 0x22 then Some (CHR 0x22)
      else if c = CHR 0x5C then Some (CHR 0x5C)
      else if c = CHR ''/'' then Some (CHR ''/'')
      else if c = CHR ''b'' then Some (CHR 0x08)
      else if c = CHR ''f'' then Some (CHR 0x0C)
      else if c = CHR ''n'' then Some (CHR 0x0A)
      else if c = CHR ''r'' then Some (CHR 0x0D)
      else if c = CHR ''t'' then Some (CHR 0x09)
      else None)"

datatype json_token = LBrace | RBrace | Colon | Comma | Str string

text \<open>
  The tokens of a text, or \<open>None\<close> for a text that is not made of braces, colons,
  commas and strings. Inside a string the characters read so far are kept in reverse.
\<close>

datatype lex_state = Outside | InString string | Escaped string

fun json_lex_from :: "lex_state \<Rightarrow> string \<Rightarrow> json_token list option" where
  "json_lex_from Outside [] = Some []"
| "json_lex_from (InString acc) [] = None"
| "json_lex_from (Escaped acc) [] = None"
| "json_lex_from Outside (c # cs) =
     (if json_ws c then json_lex_from Outside cs
      else if c = CHR ''{'' then map_option ((#) LBrace) (json_lex_from Outside cs)
      else if c = CHR ''}'' then map_option ((#) RBrace) (json_lex_from Outside cs)
      else if c = CHR '':'' then map_option ((#) Colon) (json_lex_from Outside cs)
      else if c = CHR '','' then map_option ((#) Comma) (json_lex_from Outside cs)
      else if c = CHR 0x22 then json_lex_from (InString []) cs
      else None)"
| "json_lex_from (InString acc) (c # cs) =
     (if c = CHR 0x22 then map_option ((#) (Str (rev acc))) (json_lex_from Outside cs)
      else if c = CHR 0x5C then json_lex_from (Escaped acc) cs
      else if json_plain c then json_lex_from (InString (c # acc)) cs
      else None)"
| "json_lex_from (Escaped acc) (c # cs) =
     (case json_escape c of
        None \<Rightarrow> None
      | Some d \<Rightarrow> json_lex_from (InString (d # acc)) cs)"

definition json_lex :: "string \<Rightarrow> json_token list option" where
  "json_lex text = json_lex_from Outside text"

text \<open>
  A document is an object whose members are strings or objects of strings, which is as
  deep as a descriptor goes. The tokens after the opening brace are walked one at a
  time: \<open>e\<close> is what may come next, \<open>inner\<close> is the member object that is open (its name
  and its members so far) and \<open>doc\<close> holds the finished members of the document. A
  trailing comma, a missing colon, a deeper object or tokens after the closing brace
  give \<open>None\<close>.
\<close>

datatype json_value = JString string | JObject "(string \<times> string) list"

datatype json_expect = Key | KeyOrEnd | ColonAfter string | ValueOf string | CommaOrEnd

fun json_walk :: "json_expect \<Rightarrow> (string \<times> (string \<times> string) list) option
    \<Rightarrow> (string \<times> json_value) list \<Rightarrow> json_token list \<Rightarrow> (string \<times> json_value) list option" where
  "json_walk e inner doc [] = None"
| "json_walk e inner doc (t # ts) =
     (case (e, t) of
        (Key, Str k) \<Rightarrow> json_walk (ColonAfter k) inner doc ts
      | (KeyOrEnd, Str k) \<Rightarrow> json_walk (ColonAfter k) inner doc ts
      | (ColonAfter k, Colon) \<Rightarrow> json_walk (ValueOf k) inner doc ts
      | (ValueOf k, Str v) \<Rightarrow>
          (case inner of
             None \<Rightarrow> json_walk CommaOrEnd None (doc @ [(k, JString v)]) ts
           | Some (f, ms) \<Rightarrow> json_walk CommaOrEnd (Some (f, ms @ [(k, v)])) doc ts)
      | (ValueOf k, LBrace) \<Rightarrow>
          (case inner of
             None \<Rightarrow> json_walk KeyOrEnd (Some (k, [])) doc ts
           | Some (f, ms) \<Rightarrow> None)
      | (CommaOrEnd, Comma) \<Rightarrow> json_walk Key inner doc ts
      | (KeyOrEnd, RBrace) \<Rightarrow>
          (case inner of
             None \<Rightarrow> if ts = [] then Some doc else None
           | Some (f, ms) \<Rightarrow> json_walk CommaOrEnd None (doc @ [(f, JObject ms)]) ts)
      | (CommaOrEnd, RBrace) \<Rightarrow>
          (case inner of
             None \<Rightarrow> if ts = [] then Some doc else None
           | Some (f, ms) \<Rightarrow> json_walk CommaOrEnd None (doc @ [(f, JObject ms)]) ts)
      | _ \<Rightarrow> None)"

definition json_document :: "string \<Rightarrow> (string \<times> json_value) list option" where
  "json_document text =
     (case json_lex text of
        Some (LBrace # ts) \<Rightarrow> json_walk KeyOrEnd None [] ts
      | _ \<Rightarrow> None)"

text \<open>
  What a descriptor names: the members of the \<^verbatim>\<open>credHelpers\<close> object of the document,
  each a host and its helper, in the order of the text; \<open>None\<close> when the text is not such
  a document.
\<close>

definition descriptor_helpers :: "string \<Rightarrow> (string \<times> string) list option" where
  "descriptor_helpers text =
     (case json_document text of
        None \<Rightarrow> None
      | Some doc \<Rightarrow>
          (case map_of doc ''credHelpers'' of
             Some (JObject ms) \<Rightarrow> Some ms
           | _ \<Rightarrow> None))"

subsection \<open>Concrete configurations and worlds\<close>

text \<open>A world with no variable, no file and an empty trace, where every call succeeds.\<close>

definition quiet_world :: world where
  "quiet_world =
     \<lparr> env = Map.empty, files = Map.empty, trace = [],
       setenv_err = (\<lambda>key val. None), write_err = (\<lambda>path. None), read_err = (\<lambda>path. None),
       config_err = (\<lambda>rgn. None), api_err = (\<lambda>s op. None), exec_err = (\<lambda>p. None) \<rparr>"

text \<open>
  The spec's end-to-end scenario: create-repository set, push not suppressed, region
  us-east-1, repository app, a private registry, no keys, caching disabled.
\<close>

definition example_config :: config where
  "example_config =
     \<lparr> dockerfile = ''Dockerfile'', build_context = ''.'', tags = [''latest''], args = [],
       target = [], repo = ''app'', create_repository = True, region = ''us-east-1'',
       custom_labels = [], registry = ''123.dkr.ecr.us-east-1.amazonaws.com/myrepo'',
       access_key = [], secret_key = [], snapshot_mode = [], lifecycle_policy = None,
       repository_policy = None, enable_cache = False, cache_repo = ''cache'', cache_ttl = 0,
       artifact_file = [], no_push = False, verbosity = [] \<rparr>"

text \<open>
  A world where the registry cannot be reached: every API call fails in the transport,
  with an error that carries no API error code.
\<close>

definition unreachable_api_world :: world where
  "unreachable_api_world =
     quiet_world\<lparr>api_err := (\<lambda>s op. Some (Wrap (Errorf ''dial tcp: i/o timeout'')
                                           ''operation error ECR: CreateRepository''))\<rparr>"

text \<open>A world without the directory \<^verbatim>\<open>/kaniko/.docker\<close>: no file can be written.\<close>

definition missing_directory_world :: world where
  "missing_directory_world =
     quiet_world\<lparr>write_err :=
       (\<lambda>path. Some (Errorf (''open '' @ path @ '': no such file or directory'')))\<rparr>"

text \<open>A public registry, with one file that serves as both policies.\<close>

definition public_policy_world :: world where
  "public_policy_world = quiet_world\<lparr>files := [''policy.json'' \<mapsto> ''{\"rules\": []}'']\<rparr>"

definition public_policy_config :: config where
  "public_policy_config =
     example_config\<lparr>registry := ''public.ecr.aws/acme'', no_push := True,
                    lifecycle_policy := Some ''policy.json'',
                    repository_policy := Some ''policy.json''\<rparr>"

section \<open>Properties\<close>

subsection \<open>The trace\<close>

lemma emit_simps [simp]:
  "trace (emit e w) = trace w @ [e]"
  "env (emit e w) = env w"
  "files (emit e w) = files w"
  "setenv_err (emit e w) = setenv_err w"
  "write_err (emit e w) = write_err w"
  "read_err (emit e w) = read_err w"
  "config_err (emit e w) = config_err w"
  "api_err (emit e w) = api_err w"
  "exec_err (emit e w) = exec_err w"
  by (simp_all add: emit_def)

lemma emitted_append: "trace w' = trace w @ evs \<Longrightarrow> emitted w w' = evs"
  by (simp add: emitted_def)

lemma run_auth_calls:
  "\<exists>evs. trace (snd (run_auth c w)) = trace w @ evs \<and> (\<forall>e \<in> set evs. may_call c e)"
  by (auto simp: run_auth_def setupECRAuth_def os_Setenv_def ioutil_WriteFile_def
           split: option.splits prod.splits)

lemma run_create_calls:
  "\<exists>evs. trace (snd (run_create c w)) = trace w @ evs \<and> (\<forall>e \<in> set evs. may_call c e)"
  by (auto simp: run_create_def createRepository_def config_LoadDefaultConfig_def api_call_def
           split: option.splits prod.splits)

lemma run_lifecycle_calls:
  "\<exists>evs. trace (snd (run_lifecycle c w)) = trace w @ evs \<and> (\<forall>e \<in> set evs. may_call c e)"
  by (auto simp: run_lifecycle_def uploadLifeCyclePolicy_def ioutil_ReadFile_def
                 config_LoadDefaultConfig_def api_call_def
           split: option.splits prod.splits sum.splits)

lemma run_repository_policy_calls:
  "\<exists>evs. trace (snd (run_repository_policy c w)) = trace w @ evs
     \<and> (\<forall>e \<in> set evs. may_call c e)"
  by (auto simp: run_repository_policy_def uploadRepositoryPolicy_def ioutil_ReadFile_def
                 config_LoadDefaultConfig_def api_call_def
           split: option.splits prod.splits sum.splits)

lemma plugin_Exec_calls:
  "\<exists>evs. trace (snd (plugin_Exec (plugin_of c) w)) = trace w @ evs
     \<and> (\<forall>e \<in> set evs. may_call c e)"
  by (simp add: plugin_Exec_def)

text \<open>
  A run stops after one of its five steps; the trace it leaves is the initial trace
  followed by the calls of the steps it took.
\<close>

lemma run_calls:
  "\<exists>evs. trace (snd (run c w)) = trace w @ evs \<and> (\<forall>e \<in> set evs. may_call c e)"
proof -
  obtain r1 w1 where s1: "run_auth c w = (r1, w1)" by fastforce
  obtain r2 w2 where s2: "run_create c w1 = (r2, w2)" by fastforce
  obtain r3 w3 where s3: "run_lifecycle c w2 = (r3, w3)" by fastforce
  obtain r4 w4 where s4: "run_repository_policy c w3 = (r4, w4)" by fastforce
  obtain r5 w5 where s5: "plugin_Exec (plugin_of c) w4 = (r5, w5)" by fastforce
  obtain e1 where t1: "trace w1 = trace w @ e1" "\<forall>e \<in> set e1. may_call c e"
    using run_auth_calls [of c w] s1 by auto
  obtain e2 where t2: "trace w2 = trace w1 @ e2" "\<forall>e \<in> set e2. may_call c e"
    using run_create_calls [of c w1] s2 by auto
  obtain e3 where t3: "trace w3 = trace w2 @ e3" "\<forall>e \<in> set e3. may_call c e"
    using run_lifecycle_calls [of c w2] s3 by auto
  obtain e4 where t4: "trace w4 = trace w3 @ e4" "\<forall>e \<in> set e4. may_call c e"
    using run_repository_policy_calls [of c w3] s4 by auto
  obtain e5 where t5: "trace w5 = trace w4 @ e5" "\<forall>e \<in> set e5. may_call c e"
    using plugin_Exec_calls [of c w4] s5 by auto
  have "snd (run c w) = w1 \<or> snd (run c w) = w2 \<or> snd (run c w) = w3
        \<or> snd (run c w) = w4 \<or> snd (run c w) = w5"
    by (simp add: run_def s1 s2 s3 s4 s5 split: option.splits)
  moreover have "trace w1 = trace w @ e1 \<and> (\<forall>e \<in> set e1. may_call c e)"
    using t1 by simp
  moreover have "trace w2 = trace w @ (e1 @ e2) \<and> (\<forall>e \<in> set (e1 @ e2). may_call c e)"
    using t1 t2 by auto
  moreover have "trace w3 = trace w @ (e1 @ e2 @ e3)
        \<and> (\<forall>e \<in> set (e1 @ e2 @ e3). may_call c e)"
    using t1 t2 t3 by auto
  moreover have "trace w4 = trace w @ (e1 @ e2 @ e3 @ e4)
        \<and> (\<forall>e \<in> set (e1 @ e2 @ e3 @ e4). may_call c e)"
    using t1 t2 t3 t4 by auto
  moreover have "trace w5 = trace w @ (e1 @ e2 @ e3 @ e4 @ e5)
        \<and> (\<forall>e \<in> set (e1 @ e2 @ e3 @ e4 @ e5). may_call c e)"
    using t1 t2 t3 t4 t5 by auto
  ultimately show ?thesis by metis
qed

lemma run_may_call: "e \<in> set (emitted w (snd (run c w))) \<Longrightarrow> may_call c e"
  using run_calls [of c w] by (auto simp: emitted_def)

text \<open>
  The same for the policy texts: the credential step is the only one that writes a file,
  so the files that the two policy steps read are the ones it leaves.
\<close>

lemma run_auth_uploads:
  "\<exists>evs. trace (snd (run_auth c w)) = trace w @ evs \<and> (\<forall>e \<in> set evs. uploads_from fs c e)"
  by (auto simp: run_auth_def setupECRAuth_def os_Setenv_def ioutil_WriteFile_def
           split: option.splits prod.splits)

lemma run_create_uploads:
  "files (snd (run_create c w)) = files w
   \<and> (\<exists>evs. trace (snd (run_create c w)) = trace w @ evs
         \<and> (\<forall>e \<in> set evs. uploads_from fs c e))"
  by (auto simp: run_create_def createRepository_def config_LoadDefaultConfig_def api_call_def
           split: option.splits prod.splits)

lemma run_lifecycle_uploads:
  "files (snd (run_lifecycle c w)) = files w
   \<and> (\<exists>evs. trace (snd (run_lifecycle c w)) = trace w @ evs
         \<and> (\<forall>e \<in> set evs. uploads_from (files w) c e))"
  by (auto simp: run_lifecycle_def uploadLifeCyclePolicy_def ioutil_ReadFile_def
                 config_LoadDefaultConfig_def api_call_def
           split: option.splits prod.splits sum.splits)

lemma run_repository_policy_uploads:
  "\<exists>evs. trace (snd (run_repository_policy c w)) = trace w @ evs
         \<and> (\<forall>e \<in> set evs. uploads_from (files w) c e)"
  by (auto simp: run_repository_policy_def uploadRepositoryPolicy_def ioutil_ReadFile_def
                 config_LoadDefaultConfig_def api_call_def
           split: option.splits prod.splits sum.splits)

lemma plugin_Exec_uploads:
  "\<exists>evs. trace (snd (plugin_Exec p w)) = trace w @ evs \<and> (\<forall>e \<in> set evs. uploads_from fs c e)"
  by (simp add: plugin_Exec_def)

lemma run_uploads:
  "\<exists>evs. trace (snd (run c w)) = trace w @ evs
     \<and> (\<forall>e \<in> set evs. uploads_from (files (snd (run_auth c w))) c e)"
proof -
  obtain r1 w1 where s1: "run_auth c w = (r1, w1)" by fastforce
  obtain r2 w2 where s2: "run_create c w1 = (r2, w2)" by fastforce
  obtain r3 w3 where s3: "run_lifecycle c w2 = (r3, w3)" by fastforce
  obtain r4 w4 where s4: "run_repository_policy c w3 = (r4, w4)" by fastforce
  obtain r5 w5 where s5: "plugin_Exec (plugin_of c) w4 = (r5, w5)" by fastforce
  let ?P = "uploads_from (files w1) c"
  have f2: "files w2 = files w1" using run_create_uploads [of c w1] s2 by simp
  have f3: "files w3 = files w1" using run_lifecycle_uploads [of c w2] s3 f2 by simp
  obtain e1 where t1: "trace w1 = trace w @ e1" "\<forall>e \<in> set e1. ?P e"
    using run_auth_uploads [of c w "files w1"] s1 by auto
  obtain e2 where t2: "trace w2 = trace w1 @ e2" "\<forall>e \<in> set e2. ?P e"
    using run_create_uploads [of c w1 "files w1"] s2 by auto
  obtain e3 where t3: "trace w3 = trace w2 @ e3" "\<forall>e \<in> set e3. ?P e"
    using run_lifecycle_uploads [of c w2] s3 f2 by auto
  obtain e4 where t4: "trace w4 = trace w3 @ e4" "\<forall>e \<in> set e4. ?P e"
    using run_repository_policy_uploads [of c w3] s4 f3 by auto
  obtain e5 where t5: "trace w5 = trace w4 @ e5" "\<forall>e \<in> set e5. ?P e"
    using plugin_Exec_uploads [of "plugin_of c" w4 "files w1" c] s5 by auto
  have "snd (run c w) = w1 \<or> snd (run c w) = w2 \<or> snd (run c w) = w3
        \<or> snd (run c w) = w4 \<or> snd (run c w) = w5"
    by (simp add: run_def s1 s2 s3 s4 s5 split: option.splits)
  moreover have "trace w1 = trace w @ e1 \<and> (\<forall>e \<in> set e1. ?P e)"
    using t1 by simp
  moreover have "trace w2 = trace w @ (e1 @ e2) \<and> (\<forall>e \<in> set (e1 @ e2). ?P e)"
    using t1 t2 by auto
  moreover have "trace w3 = trace w @ (e1 @ e2 @ e3) \<and> (\<forall>e \<in> set (e1 @ e2 @ e3). ?P e)"
    using t1 t2 t3 by auto
  moreover have "trace w4 = trace w @ (e1 @ e2 @ e3 @ e4)
        \<and> (\<forall>e \<in> set (e1 @ e2 @ e3 @ e4). ?P e)"
    using t1 t2 t3 t4 by auto
  moreover have "trace w5 = trace w @ (e1 @ e2 @ e3 @ e4 @ e5)
        \<and> (\<forall>e \<in> set (e1 @ e2 @ e3 @ e4 @ e5). ?P e)"
    using t1 t2 t3 t4 t5 by auto
  ultimately show ?thesis unfolding s1 snd_conv by metis
qed

lemma run_uploads_from:
  "e \<in> set (emitted w (snd (run c w))) \<Longrightarrow> uploads_from (files (snd (run_auth c w))) c e"
  using run_uploads [of c w] by (auto simp: emitted_def)

text \<open>The spec's scenario, run where every call succeeds.\<close>

lemma run_example_emitted:
  "emitted quiet_world (snd (run example_config quiet_world)) =
     [WriteFile dockerConfigPath
        (dockerConfigJSON ''123.dkr.ecr.us-east-1.amazonaws.com/myrepo'') perm_0644,
      LoadDefaultConfig ''us-east-1'',
      ApiCall Private (CreateRepository ''app''),
      PluginExec (plugin_of example_config)]"
  by (simp add: run_def run_auth_def run_create_def run_lifecycle_def run_repository_policy_def
        setupECRAuth_def createRepository_def ioutil_WriteFile_def errors_As_def
        config_LoadDefaultConfig_def api_call_def plugin_Exec_def emitted_def
        example_config_def quiet_world_def
        isRegistryPublic_def strings_HasPrefix_def ecrPublicDomain_def)

subsection \<open>setupECRAuth\<close>

text \<open>A run of plain characters inside a string is read as it stands.\<close>

lemma json_lex_plain:
  "\<forall>c \<in> set r. json_plain c \<Longrightarrow>
   json_lex_from (InString acc) (r @ rest) = json_lex_from (InString (rev r @ acc)) rest"
proof (induction r arbitrary: acc)
  case Nil
  then show ?case by simp
next
  case (Cons c r)
  then have "json_plain c" by simp
  then have "c \<noteq> CHR 0x22" "c \<noteq> CHR 0x5C" by (simp_all add: json_plain_def)
  with Cons show ?case by simp
qed

text \<open>The descriptor of line 254, read as JSON, for a registry of plain characters.\<close>

lemma descriptor_helpers_dockerConfigJSON:
  assumes "\<forall>c \<in> set rg. json_plain c"
  shows "descriptor_helpers (dockerConfigJSON rg)
           = Some [(''public.ecr.aws'', ''ecr-login''), (rg, ''ecr-login'')]"
proof -
  have "json_lex (dockerConfigJSON rg) =
      Some [LBrace, Str ''credStore'', Colon, Str ''ecr-login'', Comma,
            Str ''credHelpers'', Colon,
            LBrace, Str ''public.ecr.aws'', Colon, Str ''ecr-login'', Comma,
            Str rg, Colon, Str ''ecr-login'', RBrace, RBrace]"
    using json_lex_plain [OF assms]
    by (simp add: json_lex_def dockerConfigJSON_def ecrPublicDomain_def json_ws_def
          json_plain_def)
  then show ?thesis
    by (simp add: descriptor_helpers_def json_document_def)
qed

lemma setupECRAuth_events:
  "\<exists>evs. trace (snd (setupECRAuth a s rg w)) = trace w @ evs \<and>
     (\<forall>e \<in> set evs. (\<exists>k v. e = Setenv k v)
        \<or> e = WriteFile dockerConfigPath (dockerConfigJSON rg) perm_0644)"
  by (auto simp: setupECRAuth_def os_Setenv_def ioutil_WriteFile_def
           split: option.splits prod.splits)

lemma setupECRAuth_ok:
  "fst (setupECRAuth a s rg w) = None \<Longrightarrow>
     files (snd (setupECRAuth a s rg w)) = (files w)(dockerConfigPath \<mapsto> dockerConfigJSON rg)
     \<and> WriteFile dockerConfigPath (dockerConfigJSON rg) perm_0644
         \<in> set (emitted w (snd (setupECRAuth a s rg w)))"
  by (auto simp: setupECRAuth_def os_Setenv_def ioutil_WriteFile_def emitted_def
           split: option.splits prod.splits if_splits)

text \<open>Where setting a variable and writing the descriptor do not fail, the call succeeds.\<close>

lemma setupECRAuth_succeeds:
  "rg \<noteq> [] \<Longrightarrow> \<forall>k v. setenv_err w k v = None \<Longrightarrow> write_err w dockerConfigPath = None \<Longrightarrow>
   fst (setupECRAuth a s rg w) = None"
  by (simp add: setupECRAuth_def os_Setenv_def ioutil_WriteFile_def)

text \<open>With a registry and at most one key, the call is the write of the descriptor.\<close>

lemma setupECRAuth_one_key:
  "rg \<noteq> [] \<Longrightarrow> a = [] \<or> s = [] \<Longrightarrow>
   setupECRAuth a s rg w =
     (case write_err w dockerConfigPath of
        Some err \<Rightarrow>
          (Some (Wrap err ''failed to create docker config file''),
           emit (WriteFile dockerConfigPath (dockerConfigJSON rg) perm_0644) w)
      | None \<Rightarrow>
          (None,
           emit (WriteFile dockerConfigPath (dockerConfigJSON rg) perm_0644)
             (w\<lparr>files := (files w)(dockerConfigPath \<mapsto> dockerConfigJSON rg)\<rparr>)))"
  by (auto simp: setupECRAuth_def ioutil_WriteFile_def split: option.splits prod.splits)


subsection \<open>createRepository and the uploads\<close>

text \<open>
  What \<^verbatim>\<open>createRepository\<close> returns once the arguments are there and the
  configuration is loaded, from the error of the create-repository call.
\<close>

lemma createRepository_result:
  "rg \<noteq> [] \<Longrightarrow> rp \<noteq> [] \<Longrightarrow> config_err w rgn = None \<Longrightarrow>
   api_err w (if isRegistryPublic rg then Public else Private) (CreateRepository rp) = createErr \<Longrightarrow>
   fst (createRepository rgn rp rg w) =
     (case errors_As createErr of
        None \<Rightarrow> None
      | Some code \<Rightarrow>
          if code = ''RepositoryAlreadyExistsException'' then None
          else errors_Wrap createErr ''failed to create repository'')"
  by (auto simp: createRepository_def config_LoadDefaultConfig_def api_call_def
           split: option.splits)

lemma createRepository_emitted:
  "rg \<noteq> [] \<Longrightarrow> rp \<noteq> [] \<Longrightarrow>
   emitted w (snd (createRepository rgn rp rg w)) =
     LoadDefaultConfig rgn #
       (if config_err w rgn = None
        then [ApiCall (if isRegistryPublic rg then Public else Private) (CreateRepository rp)]
        else [])"
  by (simp add: createRepository_def config_LoadDefaultConfig_def api_call_def emitted_def
           split: option.splits)

lemma uploadLifeCyclePolicy_emitted:
  "emitted w (snd (uploadLifeCyclePolicy rgn rp txt w)) =
     LoadDefaultConfig rgn #
       (if config_err w rgn = None then [ApiCall Private (PutLifecyclePolicy rp txt)] else [])"
  by (simp add: uploadLifeCyclePolicy_def config_LoadDefaultConfig_def api_call_def emitted_def
           split: option.splits)

section \<open>The claims\<close>

text \<open>
  Claim C3. For every registry host string, \<^verbatim>\<open>isRegistryPublic\<close> returns true if and
  only if the string starts with the literal \<^verbatim>\<open>public.ecr.aws\<close>, that is, if and only
  if it is that literal followed by some rest; the literal alone is classified public.
  The classifier is a function of the string alone and has a value on every string.
\<close>

theorem isRegistryPublic_iff_prefix:
  "isRegistryPublic rg = (\<exists>rest. rg = ''public.ecr.aws'' @ rest)
   \<and> isRegistryPublic rg = prefix ''public.ecr.aws'' rg
   \<and> isRegistryPublic ''public.ecr.aws''"
proof -
  have p: "isRegistryPublic r = prefix ''public.ecr.aws'' r" for r
    unfolding isRegistryPublic_def strings_HasPrefix_def ecrPublicDomain_def
    by (metis prefix_def append_eq_conv_conj prefix_length_le take_is_prefix)
  have "isRegistryPublic rg = (\<exists>rest. rg = ''public.ecr.aws'' @ rest)"
    unfolding p prefix_def ..
  moreover have "isRegistryPublic ''public.ecr.aws''"
    unfolding p by (rule prefix_order.order_refl)
  ultimately show ?thesis using p by blast
qed

theorem isRegistryPublic_iff_prefix_witness:
  "isRegistryPublic ''public.ecr.aws/acme''
   \<and> \<not> isRegistryPublic ''123.dkr.ecr.us-east-1.amazonaws.com''"
  using isRegistryPublic_iff_prefix [of "''public.ecr.aws/acme''"]
        isRegistryPublic_iff_prefix [of "''123.dkr.ecr.us-east-1.amazonaws.com''"]
  by simp

text \<open>
  Claim C4. Called with an empty registry host, \<^verbatim>\<open>setupECRAuth\<close> returns the error
  "registry must be specified" and leaves the world as it was: no environment variable
  is set, no file is written and no external call is made, whatever the two keys are.
\<close>

theorem setupECRAuth_empty_registry:
  "setupECRAuth accessKey secretKey [] w = (Some (Errorf ''registry must be specified''), w)"
  by (simp add: setupECRAuth_def)

theorem setupECRAuth_empty_registry_witness:
  "setupECRAuth ''AKIAEXAMPLE'' ''secret'' [] quiet_world
     = (Some (Errorf ''registry must be specified''), quiet_world)
   \<and> env (snd (setupECRAuth ''AKIAEXAMPLE'' ''secret'' [] quiet_world)) = Map.empty
   \<and> files (snd (setupECRAuth ''AKIAEXAMPLE'' ''secret'' [] quiet_world)) = Map.empty
   \<and> trace (snd (setupECRAuth ''AKIAEXAMPLE'' ''secret'' [] quiet_world)) = []"
  using setupECRAuth_empty_registry [of "''AKIAEXAMPLE''" "''secret''" quiet_world]
  by (simp add: quiet_world_def)

text \<open>
  Claim C1. An error of the create-repository call with the code
  \<^verbatim>\<open>RepositoryAlreadyExistsException\<close> is a success, and any other error of the call makes
  \<^verbatim>\<open>createRepository\<close> fail. The code does so for the errors that carry an API error
  code (lemma \<open>createRepository_result\<close>), and misses the others: where the registry
  cannot be reached, the create-repository call for the repository app fails in the
  transport, and \<^verbatim>\<open>createRepository\<close> still returns no error.
\<close>

theorem createRepository_ignores_error_without_code:
  "api_err unreachable_api_world Private (CreateRepository ''app'')
     = Some (Wrap (Errorf ''dial tcp: i/o timeout'') ''operation error ECR: CreateRepository'')
   \<and> fst (createRepository ''us-east-1'' ''app'' ''123.dkr.ecr.us-east-1.amazonaws.com''
            unreachable_api_world) = None"
  by (simp add: createRepository_def config_LoadDefaultConfig_def api_call_def
        unreachable_api_world_def quiet_world_def isRegistryPublic_def strings_HasPrefix_def
        ecrPublicDomain_def errors_As_def)



text \<open>
  Claim C5, as the code has it. Every file that \<^verbatim>\<open>setupECRAuth\<close> writes is the file
  \<^verbatim>\<open>/kaniko/.docker/config.json\<close>, and what is written is the format text of line 254
  with the public domain and the registry host \<open>rg\<close> put in as they are. When the call
  returns no error the write was made, and the files are the former ones with that path
  bound to the text: what the file held before is gone, and no other file is touched;
  the call does return no error when the registry is not empty and neither the setting of
  a variable nor the write fails.
  When \<open>rg\<close> is made of characters that a JSON string takes as they are (no double
  quote, no backslash, no control character), the text read as JSON has exactly two
  entries under \<^verbatim>\<open>credHelpers\<close>: the helper \<^verbatim>\<open>ecr-login\<close> for \<^verbatim>\<open>public.ecr.aws\<close> and the
  helper \<^verbatim>\<open>ecr-login\<close> for \<open>rg\<close>, the same host twice when \<open>rg\<close> is the public domain.
\<close>

theorem setupECRAuth_descriptor:
  "(\<forall>e \<in> set (emitted w (snd (setupECRAuth a s rg w))). \<forall>p d m.
       e = WriteFile p d m \<longrightarrow> p = ''/kaniko/.docker/config.json'' \<and> d = dockerConfigJSON rg)
   \<and> (fst (setupECRAuth a s rg w) = None \<longrightarrow>
         WriteFile ''/kaniko/.docker/config.json'' (dockerConfigJSON rg) perm_0644
           \<in> set (emitted w (snd (setupECRAuth a s rg w)))
         \<and> files (snd (setupECRAuth a s rg w))
             = (files w)(''/kaniko/.docker/config.json'' \<mapsto> dockerConfigJSON rg))
   \<and> (rg \<noteq> [] \<and> (\<forall>k v. setenv_err w k v = None) \<and> write_err w dockerConfigPath = None
        \<longrightarrow> fst (setupECRAuth a s rg w) = None)
   \<and> (rg \<noteq> [] \<and> (\<forall>c \<in> set rg. json_plain c) \<longrightarrow>
         descriptor_helpers (dockerConfigJSON rg)
           = Some [(''public.ecr.aws'', ''ecr-login''), (rg, ''ecr-login'')])"
proof -
  obtain evs where evs: "trace (snd (setupECRAuth a s rg w)) = trace w @ evs"
    "\<forall>e \<in> set evs. (\<exists>k v. e = Setenv k v)
       \<or> e = WriteFile dockerConfigPath (dockerConfigJSON rg) perm_0644"
    using setupECRAuth_events by blast
  have em: "emitted w (snd (setupECRAuth a s rg w)) = evs"
    using evs(1) by (rule emitted_append)
  have 1: "\<forall>e \<in> set (emitted w (snd (setupECRAuth a s rg w))). \<forall>p d m.
       e = WriteFile p d m \<longrightarrow> p = ''/kaniko/.docker/config.json'' \<and> d = dockerConfigJSON rg"
    using evs(2) unfolding em by (auto simp: dockerConfigPath_def)
  have 2: "fst (setupECRAuth a s rg w) = None \<longrightarrow>
         WriteFile ''/kaniko/.docker/config.json'' (dockerConfigJSON rg) perm_0644
           \<in> set (emitted w (snd (setupECRAuth a s rg w)))
         \<and> files (snd (setupECRAuth a s rg w))
             = (files w)(''/kaniko/.docker/config.json'' \<mapsto> dockerConfigJSON rg)"
    using setupECRAuth_ok [of a s rg w] by (simp add: dockerConfigPath_def)
  have 3: "rg \<noteq> [] \<and> (\<forall>c \<in> set rg. json_plain c) \<longrightarrow>
         descriptor_helpers (dockerConfigJSON rg)
           = Some [(''public.ecr.aws'', ''ecr-login''), (rg, ''ecr-login'')]"
    using descriptor_helpers_dockerConfigJSON by blast
  have 4: "rg \<noteq> [] \<and> (\<forall>k v. setenv_err w k v = None) \<and> write_err w dockerConfigPath = None
        \<longrightarrow> fst (setupECRAuth a s rg w) = None"
    using setupECRAuth_succeeds [of rg w a s] by blast
  from 1 2 3 4 show ?thesis by blast
qed

theorem setupECRAuth_descriptor_witness:
  "fst (setupECRAuth ''AKIAEXAMPLE'' ''secret'' ''123.dkr.ecr.us-east-1.amazonaws.com''
          quiet_world) = None
   \<and> files (snd (setupECRAuth ''AKIAEXAMPLE'' ''secret'' ''123.dkr.ecr.us-east-1.amazonaws.com''
                   quiet_world))
        ''/kaniko/.docker/config.json''
       = Some ''{\"credStore\": \"ecr-login\", \"credHelpers\": {\"public.ecr.aws\": \"ecr-login\", \"123.dkr.ecr.us-east-1.amazonaws.com\": \"ecr-login\"}}''
   \<and> descriptor_helpers ''{\"credStore\": \"ecr-login\", \"credHelpers\": {\"public.ecr.aws\": \"ecr-login\", \"123.dkr.ecr.us-east-1.amazonaws.com\": \"ecr-login\"}}''
       = Some [(''public.ecr.aws'', ''ecr-login''),
               (''123.dkr.ecr.us-east-1.amazonaws.com'', ''ecr-login'')]"
proof -
  have ok: "(\<forall>k v. setenv_err quiet_world k v = None)
            \<and> write_err quiet_world dockerConfigPath = None"
    by (simp add: quiet_world_def)
  have pl: "\<forall>c \<in> set ''123.dkr.ecr.us-east-1.amazonaws.com''. json_plain c"
    by (simp add: json_plain_def)
  show ?thesis
    using ok pl
      setupECRAuth_descriptor [of quiet_world "''AKIAEXAMPLE''" "''secret''"
        "''123.dkr.ecr.us-east-1.amazonaws.com''"]
    by (simp add: dockerConfigJSON_def ecrPublicDomain_def)
qed

text \<open>
  Claim C5 as stated fails for a registry host with a double quote in it: the host is
  put between the quotes of the format text unescaped, so the host
  \<^verbatim>\<open>a": "ecr-login", "b\<close> closes the string early, and the descriptor that is written
  names three hosts, \<^verbatim>\<open>public.ecr.aws\<close>, \<^verbatim>\<open>a\<close> and \<^verbatim>\<open>b\<close>, none of them the registry host.
\<close>

theorem setupECRAuth_descriptor_quote:
  "fst (setupECRAuth [] [] ''a\": \"ecr-login\", \"b'' quiet_world) = None
   \<and> files (snd (setupECRAuth [] [] ''a\": \"ecr-login\", \"b'' quiet_world))
        ''/kaniko/.docker/config.json''
       = Some (dockerConfigJSON ''a\": \"ecr-login\", \"b'')
   \<and> descriptor_helpers (dockerConfigJSON ''a\": \"ecr-login\", \"b'')
       = Some [(''public.ecr.aws'', ''ecr-login''), (''a'', ''ecr-login''),
               (''b'', ''ecr-login'')]"
proof -
  have "fst (setupECRAuth [] [] ''a\": \"ecr-login\", \"b'' quiet_world) = None
   \<and> files (snd (setupECRAuth [] [] ''a\": \"ecr-login\", \"b'' quiet_world))
        ''/kaniko/.docker/config.json''
       = Some (dockerConfigJSON ''a\": \"ecr-login\", \"b'')"
    by (simp add: setupECRAuth_def ioutil_WriteFile_def quiet_world_def dockerConfigPath_def)
  moreover have "descriptor_helpers (dockerConfigJSON ''a\": \"ecr-login\", \"b'')
       = Some [(''public.ecr.aws'', ''ecr-login''), (''a'', ''ecr-login''),
               (''b'', ''ecr-login'')]"
    by (simp add: descriptor_helpers_def json_document_def json_lex_def dockerConfigJSON_def
          ecrPublicDomain_def json_ws_def json_plain_def)
  ultimately show ?thesis by blast
qed

text \<open>
  Claim C6. Whatever the configuration and the world, every put-lifecycle-policy call
  that a run makes goes to the private API surface, also when the registry is classified
  public; no such call ever goes to the public surface. \<^verbatim>\<open>uploadLifeCyclePolicy\<close> does not
  look at the registry: it loads the configuration of the region and, when that
  succeeds, makes the one call, on the private surface.
\<close>

theorem lifecycle_policy_private_only:
  "(\<forall>e \<in> set (emitted w (snd (run c w))). \<forall>s n t.
       e = ApiCall s (PutLifecyclePolicy n t) \<longrightarrow> s = Private)
   \<and> emitted w (snd (uploadLifeCyclePolicy rgn rp txt w)) =
       LoadDefaultConfig rgn #
         (if config_err w rgn = None then [ApiCall Private (PutLifecyclePolicy rp txt)] else [])"
proof -
  have "\<forall>e \<in> set (emitted w (snd (run c w))). \<forall>s n t.
       e = ApiCall s (PutLifecyclePolicy n t) \<longrightarrow> s = Private"
    using run_may_call [of _ w c] by fastforce
  then show ?thesis using uploadLifeCyclePolicy_emitted by blast
qed

theorem lifecycle_policy_private_only_witness:
  "isRegistryPublic (registry public_policy_config)
   \<and> ApiCall Private (PutLifecyclePolicy ''app'' ''{\"rules\": []}'')
       \<in> set (emitted public_policy_world (snd (run public_policy_config public_policy_world)))
   \<and> ApiCall Public (PutLifecyclePolicy ''app'' ''{\"rules\": []}'')
       \<notin> set (emitted public_policy_world (snd (run public_policy_config public_policy_world)))"
proof -
  have 1: "isRegistryPublic (registry public_policy_config)"
    by (simp add: public_policy_config_def example_config_def isRegistryPublic_def
          strings_HasPrefix_def ecrPublicDomain_def)
  have 2: "emitted public_policy_world (snd (run public_policy_config public_policy_world)) =
    [ReadFile ''policy.json'', LoadDefaultConfig ''us-east-1'',
     ApiCall Private (PutLifecyclePolicy ''app'' ''{\"rules\": []}''),
     ReadFile ''policy.json'', LoadDefaultConfig ''us-east-1'',
     ApiCall Public (SetRepositoryPolicy ''app'' ''{\"rules\": []}''),
     PluginExec (plugin_of public_policy_config)]"
    by (simp add: run_def run_auth_def run_create_def run_lifecycle_def run_repository_policy_def
          uploadLifeCyclePolicy_def uploadRepositoryPolicy_def ioutil_ReadFile_def
          config_LoadDefaultConfig_def api_call_def plugin_Exec_def emitted_def
          public_policy_config_def public_policy_world_def example_config_def quiet_world_def
          isRegistryPublic_def strings_HasPrefix_def ecrPublicDomain_def)
  show ?thesis
    using 1 2 lifecycle_policy_private_only [of public_policy_world public_policy_config]
    by auto
qed

text \<open>
  Claim C7. Every create-repository call that a run makes is made with push not
  suppressed and the create-repository flag set, names the configured repository, and
  goes to the public surface when \<^verbatim>\<open>isRegistryPublic\<close> holds of the registry and to the
  private surface when it does not. \<^verbatim>\<open>createRepository\<close> itself, given a registry and a
  repository and once the configuration is loaded, makes exactly that one call.
\<close>

theorem create_repository_call_guard:
  "(\<forall>e \<in> set (emitted w (snd (run c w))). \<forall>s n.
       e = ApiCall s (CreateRepository n) \<longrightarrow>
         \<not> no_push c \<and> create_repository c \<and> n = repo c
         \<and> s = (if isRegistryPublic (registry c) then Public else Private))
   \<and> (rg \<noteq> [] \<and> rp \<noteq> [] \<and> config_err w rgn = None \<longrightarrow>
        emitted w (snd (createRepository rgn rp rg w)) =
          [LoadDefaultConfig rgn,
           ApiCall (if isRegistryPublic rg then Public else Private) (CreateRepository rp)])"
proof -
  have "\<forall>e \<in> set (emitted w (snd (run c w))). \<forall>s n.
       e = ApiCall s (CreateRepository n) \<longrightarrow>
         \<not> no_push c \<and> create_repository c \<and> n = repo c
         \<and> s = (if isRegistryPublic (registry c) then Public else Private)"
    using run_may_call [of _ w c] by fastforce
  then show ?thesis by (simp add: createRepository_emitted)
qed

theorem create_repository_call_guard_witness:
  "ApiCall Private (CreateRepository ''app'')
     \<in> set (emitted quiet_world (snd (run example_config quiet_world)))
   \<and> \<not> no_push example_config \<and> create_repository example_config
   \<and> repo example_config = ''app'' \<and> \<not> isRegistryPublic (registry example_config)
   \<and> emitted quiet_world
       (snd (createRepository ''us-east-1'' ''app'' ''public.ecr.aws/acme'' quiet_world))
       = [LoadDefaultConfig ''us-east-1'', ApiCall Public (CreateRepository ''app'')]"
proof -
  have m: "ApiCall Private (CreateRepository ''app'')
     \<in> set (emitted quiet_world (snd (run example_config quiet_world)))"
    by (simp add: run_example_emitted)
  have p: "isRegistryPublic ''public.ecr.aws/acme''"
    by (simp add: isRegistryPublic_def strings_HasPrefix_def ecrPublicDomain_def)
  have q: "config_err quiet_world ''us-east-1'' = None"
    by (simp add: quiet_world_def)
  have r: "repo example_config = ''app''"
    by (simp add: example_config_def)
  show ?thesis
    using m p q r
      create_repository_call_guard [of quiet_world example_config "''public.ecr.aws/acme''"
        "''app''" "''us-east-1''"]
    by (auto split: if_splits)
qed

text \<open>
  Claim C8. Where the policy file at path \<open>p\<close> can be read and holds the text \<open>T\<close> when
  \<^verbatim>\<open>run\<close> comes to it, the lifecycle step (lines 188-196) makes these calls and no
  other: it reads \<open>p\<close>, loads the configuration of the region and, when that succeeds,
  puts the lifecycle policy with the text \<open>T\<close> itself. The repository-policy step (lines
  198-206) does the same with the set-repository-policy call. Over a whole run, the text
  of every policy upload is what the file of the policy flag holds once the credential
  step is done. The text is neither changed nor inspected on the way.
\<close>

theorem policy_text_verbatim:
  "(read_err w p = None \<and> files w p = Some T \<and> lifecycle_policy c = Some p \<longrightarrow>
      emitted w (snd (run_lifecycle c w)) =
        ReadFile p # LoadDefaultConfig (region c) #
          (if config_err w (region c) = None
           then [ApiCall Private (PutLifecyclePolicy (repo c) T)] else []))
   \<and> (read_err w p = None \<and> files w p = Some T \<and> repository_policy c = Some p \<longrightarrow>
      emitted w (snd (run_repository_policy c w)) =
        ReadFile p # LoadDefaultConfig (region c) #
          (if config_err w (region c) = None
           then [ApiCall (if isRegistryPublic (registry c) then Public else Private)
                   (SetRepositoryPolicy (repo c) T)]
           else []))
   \<and> (\<forall>e \<in> set (emitted w (snd (run c w))). \<forall>s n t.
        (e = ApiCall s (PutLifecyclePolicy n t) \<longrightarrow>
           (\<exists>q. lifecycle_policy c = Some q \<and> files (snd (run_auth c w)) q = Some t))
        \<and> (e = ApiCall s (SetRepositoryPolicy n t) \<longrightarrow>
           (\<exists>q. repository_policy c = Some q \<and> files (snd (run_auth c w)) q = Some t)))"
proof -
  have 1: "read_err w p = None \<and> files w p = Some T \<and> lifecycle_policy c = Some p \<longrightarrow>
      emitted w (snd (run_lifecycle c w)) =
        ReadFile p # LoadDefaultConfig (region c) #
          (if config_err w (region c) = None
           then [ApiCall Private (PutLifecyclePolicy (repo c) T)] else [])"
    by (simp add: run_lifecycle_def ioutil_ReadFile_def uploadLifeCyclePolicy_def
          config_LoadDefaultConfig_def api_call_def emitted_def split: option.splits)
  have 2: "read_err w p = None \<and> files w p = Some T \<and> repository_policy c = Some p \<longrightarrow>
      emitted w (snd (run_repository_policy c w)) =
        ReadFile p # LoadDefaultConfig (region c) #
          (if config_err w (region c) = None
           then [ApiCall (if isRegistryPublic (registry c) then Public else Private)
                   (SetRepositoryPolicy (repo c) T)]
           else [])"
    by (simp add: run_repository_policy_def ioutil_ReadFile_def uploadRepositoryPolicy_def
          config_LoadDefaultConfig_def api_call_def emitted_def split: option.splits)
  have 3: "\<forall>e \<in> set (emitted w (snd (run c w))). \<forall>s n t.
        (e = ApiCall s (PutLifecyclePolicy n t) \<longrightarrow>
           (\<exists>q. lifecycle_policy c = Some q \<and> files (snd (run_auth c w)) q = Some t))
        \<and> (e = ApiCall s (SetRepositoryPolicy n t) \<longrightarrow>
           (\<exists>q. repository_policy c = Some q \<and> files (snd (run_auth c w)) q = Some t))"
    using run_uploads_from [of _ w c] by (fastforce split: option.splits)
  from 1 2 3 show ?thesis by blast
qed

theorem policy_text_verbatim_witness:
  "read_err public_policy_world ''policy.json'' = None
   \<and> files public_policy_world ''policy.json'' = Some ''{\"rules\": []}''
   \<and> lifecycle_policy public_policy_config = Some ''policy.json''
   \<and> repository_policy public_policy_config = Some ''policy.json''
   \<and> emitted public_policy_world (snd (run_lifecycle public_policy_config public_policy_world))
       = [ReadFile ''policy.json'', LoadDefaultConfig ''us-east-1'',
          ApiCall Private (PutLifecyclePolicy ''app'' ''{\"rules\": []}'')]
   \<and> emitted public_policy_world
       (snd (run_repository_policy public_policy_config public_policy_world))
       = [ReadFile ''policy.json'', LoadDefaultConfig ''us-east-1'',
          ApiCall Public (SetRepositoryPolicy ''app'' ''{\"rules\": []}'')]"
proof -
  have r: "read_err public_policy_world ''policy.json'' = None"
    by (simp add: public_policy_world_def quiet_world_def)
  have f: "files public_policy_world ''policy.json'' = Some ''{\"rules\": []}''"
    by (simp add: public_policy_world_def quiet_world_def)
  have c: "config_err public_policy_world ''us-east-1'' = None"
    by (simp add: public_policy_world_def quiet_world_def)
  have g: "lifecycle_policy public_policy_config = Some ''policy.json''"
    "repository_policy public_policy_config = Some ''policy.json''"
    "region public_policy_config = ''us-east-1''" "repo public_policy_config = ''app''"
    "isRegistryPublic (registry public_policy_config)"
    by (simp_all add: public_policy_config_def example_config_def isRegistryPublic_def
          strings_HasPrefix_def ecrPublicDomain_def)
  show ?thesis
    using policy_text_verbatim [of public_policy_world "''policy.json''" "''{\"rules\": []}''"
            public_policy_config] r f c g
    by simp
qed

text \<open>
  Claim C9. In the builder's input that \<^verbatim>\<open>run\<close> assembles, the image repository is the
  registry host, a slash and the repository name, and the cache repository is the
  registry host, a slash and the cache-repo name; both are computed from every
  configuration, whether caching is enabled or not. The only builder invocation of a run
  is made on that input.
\<close>

theorem plugin_repositories:
  "Repo (Build (plugin_of c)) = registry c @ ''/'' @ repo c
   \<and> CacheRepo (Build (plugin_of c)) = registry c @ ''/'' @ cache_repo c
   \<and> EnableCache (Build (plugin_of c)) = enable_cache c
   \<and> (\<forall>e \<in> set (emitted w (snd (run c w))). \<forall>p. e = PluginExec p \<longrightarrow> p = plugin_of c)"
proof -
  have "\<forall>e \<in> set (emitted w (snd (run c w))). \<forall>p. e = PluginExec p \<longrightarrow> p = plugin_of c"
    using run_may_call [of _ w c] by fastforce
  then show ?thesis by (simp add: plugin_of_def)
qed

theorem plugin_repositories_witness:
  "PluginExec (plugin_of example_config)
     \<in> set (emitted quiet_world (snd (run example_config quiet_world)))
   \<and> Repo (Build (plugin_of example_config)) = ''123.dkr.ecr.us-east-1.amazonaws.com/myrepo/app''
   \<and> \<not> EnableCache (Build (plugin_of example_config))
   \<and> CacheRepo (Build (plugin_of example_config))
       = ''123.dkr.ecr.us-east-1.amazonaws.com/myrepo/cache''"
  using plugin_repositories [of example_config quiet_world]
  by (simp add: run_example_emitted) (simp add: example_config_def)

text \<open>
  Claim C10, as the code has it. Called with a non-empty registry host and exactly one
  of the two keys non-empty, \<^verbatim>\<open>setupECRAuth\<close> sets no environment variable: the
  environment is unchanged, and the only call made is the write of the descriptor to
  \<^verbatim>\<open>/kaniko/.docker/config.json\<close>. The call succeeds exactly when that write does, and
  then the file holds the descriptor; when the write fails with an error, the call
  returns that error wrapped in "failed to create docker config file".
\<close>

theorem setupECRAuth_one_key_frame:
  assumes "rg \<noteq> []" and "(a = []) \<noteq> (s = [])"
  shows "env (snd (setupECRAuth a s rg w)) = env w
         \<and> emitted w (snd (setupECRAuth a s rg w))
             = [WriteFile dockerConfigPath (dockerConfigJSON rg) perm_0644]
         \<and> (fst (setupECRAuth a s rg w) = None) = (write_err w dockerConfigPath = None)
         \<and> (write_err w dockerConfigPath = None \<longrightarrow>
              files (snd (setupECRAuth a s rg w))
                = (files w)(dockerConfigPath \<mapsto> dockerConfigJSON rg))
         \<and> (\<forall>err. write_err w dockerConfigPath = Some err \<longrightarrow>
              fst (setupECRAuth a s rg w)
                = Some (Wrap err ''failed to create docker config file''))"
proof -
  from assms(2) have "a = [] \<or> s = []" by blast
  from setupECRAuth_one_key [OF assms(1) this, of w] show ?thesis
    by (simp add: emitted_def split: option.splits)
qed

theorem setupECRAuth_one_key_frame_witness:
  "env (snd (setupECRAuth ''AKIAEXAMPLE'' [] ''123.dkr.ecr.us-east-1.amazonaws.com'' quiet_world))
     = Map.empty
   \<and> fst (setupECRAuth ''AKIAEXAMPLE'' [] ''123.dkr.ecr.us-east-1.amazonaws.com'' quiet_world)
       = None
   \<and> files (snd (setupECRAuth ''AKIAEXAMPLE'' [] ''123.dkr.ecr.us-east-1.amazonaws.com''
                   quiet_world))
       = [dockerConfigPath \<mapsto> dockerConfigJSON ''123.dkr.ecr.us-east-1.amazonaws.com'']
   \<and> fst (setupECRAuth [] ''secret'' ''123.dkr.ecr.us-east-1.amazonaws.com''
            missing_directory_world)
       = Some (Wrap (Errorf ''open /kaniko/.docker/config.json: no such file or directory'')
                 ''failed to create docker config file'')"
  using setupECRAuth_one_key_frame [of "''123.dkr.ecr.us-east-1.amazonaws.com''"
          "''AKIAEXAMPLE''" "[]" quiet_world]
    setupECRAuth_one_key_frame [of "''123.dkr.ecr.us-east-1.amazonaws.com''"
          "[]" "''secret''" missing_directory_world]
  by (simp add: quiet_world_def missing_directory_world_def dockerConfigPath_def)

text \<open>
  Claim C10 as stated fails where the descriptor cannot be written: with the access key
  alone and a registry, in a world without the directory of the descriptor, the call
  returns the error of the write and no descriptor file exists afterwards.
\<close>

theorem setupECRAuth_one_key_write_fails:
  "fst (setupECRAuth ''AKIAEXAMPLE'' [] ''123.dkr.ecr.us-east-1.amazonaws.com''
          missing_directory_world)
     = Some (Wrap (Errorf ''open /kaniko/.docker/config.json: no such file or directory'')
               ''failed to create docker config file'')
   \<and> files (snd (setupECRAuth ''AKIAEXAMPLE'' [] ''123.dkr.ecr.us-east-1.amazonaws.com''
                   missing_directory_world)) ''/kaniko/.docker/config.json'' = None"
  by (simp add: setupECRAuth_def ioutil_WriteFile_def missing_directory_world_def
        quiet_world_def dockerConfigPath_def)

end
